theory Spec2Isabelle
  imports Complex_Main
begin

section \<open>Floating-point values\<close>

text \<open>
  A pandas series of dtype float64 holds finite numbers, the two infinities and
  not-a-number. The finite numbers are taken as reals, so rounding, overflow and the sign
  of zero are abstracted; what is kept is what the strategies and the backtester depend
  on: not-a-number propagates through arithmetic, every comparison with it is false
  (\<open>!=\<close> is true), and a division by zero gives an infinity or not-a-number.
\<close>

datatype fval = Fin real | PInf | NInf | NaN

fun is_fin :: "fval \<Rightarrow> bool" where
  "is_fin (Fin a) = True"
| "is_fin x = False"

fun real_of :: "fval \<Rightarrow> real" where
  "real_of (Fin a) = a"
| "real_of x = 0"

fun fneg :: "fval \<Rightarrow> fval" where
  "fneg (Fin a) = Fin (- a)"
| "fneg PInf = NInf"
| "fneg NInf = PInf"
| "fneg NaN = NaN"

fun fabs :: "fval \<Rightarrow> fval" where
  "fabs (Fin a) = Fin \<bar>a\<bar>"
| "fabs PInf = PInf"
| "fabs NInf = PInf"
| "fabs NaN = NaN"

fun fadd :: "fval \<Rightarrow> fval \<Rightarrow> fval" where
  "fadd NaN y = NaN"
| "fadd x NaN = NaN"
| "fadd (Fin a) (Fin b) = Fin (a + b)"
| "fadd PInf NInf = NaN"
| "fadd NInf PInf = NaN"
| "fadd PInf y = PInf"
| "fadd NInf y = NInf"
| "fadd x PInf = PInf"
| "fadd x NInf = NInf"

definition fsub :: "fval \<Rightarrow> fval \<Rightarrow> fval" where
  "fsub x y = fadd x (fneg y)"

fun fmul :: "fval \<Rightarrow> fval \<Rightarrow> fval" where
  "fmul NaN y = NaN"
| "fmul x NaN = NaN"
| "fmul (Fin a) (Fin b) = Fin (a * b)"
| "fmul (Fin a) PInf = (if a = 0 then NaN else if 0 < a then PInf else NInf)"
| "fmul (Fin a) NInf = (if a = 0 then NaN else if 0 < a then NInf else PInf)"
| "fmul PInf (Fin b) = (if b = 0 then NaN else if 0 < b then PInf else NInf)"
| "fmul NInf (Fin b) = (if b = 0 then NaN else if 0 < b then NInf else PInf)"
| "fmul PInf PInf = PInf"
| "fmul PInf NInf = NInf"
| "fmul NInf PInf = NInf"
| "fmul NInf NInf = PInf"

fun fdiv :: "fval \<Rightarrow> fval \<Rightarrow> fval" where
  "fdiv NaN y = NaN"
| "fdiv x NaN = NaN"
| "fdiv (Fin a) (Fin b) =
     (if b = 0 then (if a = 0 then NaN else if 0 < a then PInf else NInf)
      else Fin (a / b))"
| "fdiv (Fin a) y = Fin 0"
| "fdiv PInf (Fin b) = (if 0 \<le> b then PInf else NInf)"
| "fdiv NInf (Fin b) = (if 0 \<le> b then NInf else PInf)"
| "fdiv x y = NaN"

fun flt :: "fval \<Rightarrow> fval \<Rightarrow> bool" where
  "flt NaN y = False"
| "flt x NaN = False"
| "flt (Fin a) (Fin b) = (a < b)"
| "flt x NInf = False"
| "flt PInf y = False"
| "flt x PInf = True"
| "flt NInf y = True"

definition fgt :: "fval \<Rightarrow> fval \<Rightarrow> bool" where
  "fgt x y = flt y x"

definition fle :: "fval \<Rightarrow> fval \<Rightarrow> bool" where
  "fle x y = (x \<noteq> NaN \<and> y \<noteq> NaN \<and> (x = y \<or> flt x y))"

definition fne :: "fval \<Rightarrow> fval \<Rightarrow> bool" where
  "fne x y = (x = NaN \<or> y = NaN \<or> x \<noteq> y)"

text \<open>
  \<open>base ** e\<close> for a float64 base and a positive finite exponent: a negative base
  with a fractional exponent gives not-a-number.
\<close>

fun fpow :: "fval \<Rightarrow> real \<Rightarrow> fval" where
  "fpow NaN e = NaN"
| "fpow (Fin b) e =
     (if 0 \<le> b then Fin (b powr e)
      else if real_of_int \<lfloor>e\<rfloor> = e then Fin (b ^ nat \<lfloor>e\<rfloor>)
      else NaN)"
| "fpow PInf e = PInf"
| "fpow NInf e = (if real_of_int \<lfloor>e\<rfloor> = e \<and> odd \<lfloor>e\<rfloor> then NInf else PInf)"

section \<open>Series\<close>

text \<open>
  A series is the list of its (label, value) pairs in index order. The operations of
  pandas that the repository calls work on the values and keep the index.
\<close>

datatype error = ValueError | IndexError

definition index :: "('k \<times> 'v) list \<Rightarrow> 'k list" where
  "index s = map fst s"

definition vals :: "('k \<times> 'v) list \<Rightarrow> 'v list" where
  "vals s = map snd s"

text \<open>\<open>shift(periods)\<close>: the values move by \<open>periods\<close> places, the vacated places are NaN.\<close>

definition shift :: "int \<Rightarrow> fval list \<Rightarrow> fval list" where
  "shift periods xs =
     (if 0 \<le> periods then take (length xs) (replicate (nat periods) NaN @ xs)
      else drop (nat (- periods)) xs @ replicate (min (nat (- periods)) (length xs)) NaN)"

definition fillna :: "fval \<Rightarrow> fval list \<Rightarrow> fval list" where
  "fillna v xs = map (\<lambda>x. if x = NaN then v else x) xs"

definition dropna :: "fval list \<Rightarrow> fval list" where
  "dropna xs = filter (\<lambda>x. x \<noteq> NaN) xs"

text \<open>Forward fill: a NaN takes the last value before it that is not NaN, if there is one.\<close>

fun ffill_from :: "fval \<Rightarrow> fval list \<Rightarrow> fval list" where
  "ffill_from l [] = []"
| "ffill_from l (x # xs) = (if x = NaN then l # ffill_from l xs else x # ffill_from x xs)"

definition ffill :: "fval list \<Rightarrow> fval list" where
  "ffill xs = ffill_from NaN xs"

text \<open>
  \<open>pct_change(periods)\<close> with its default fill method (pad): the padded data divided by
  its shift, minus one.
\<close>

definition pct_change :: "int \<Rightarrow> fval list \<Rightarrow> fval list" where
  "pct_change periods xs =
     (let d = ffill xs in map2 (\<lambda>a b. fsub (fdiv a b) (Fin 1)) d (shift periods d))"

text \<open>\<open>diff()\<close>: each value minus its predecessor; the first has none and is NaN.\<close>

definition diff :: "fval list \<Rightarrow> fval list" where
  "diff xs = map2 fsub xs (shift 1 xs)"

text \<open>
  \<open>cumprod()\<close> and \<open>cummax()\<close> skip NaN: the entry stays NaN and the running value is
  carried over it.
\<close>

fun cumprod_from :: "fval \<Rightarrow> fval list \<Rightarrow> fval list" where
  "cumprod_from acc [] = []"
| "cumprod_from acc (x # xs) =
     (if x = NaN then NaN # cumprod_from acc xs
      else fmul acc x # cumprod_from (fmul acc x) xs)"

definition cumprod :: "fval list \<Rightarrow> fval list" where
  "cumprod xs = cumprod_from (Fin 1) xs"

fun cummax_from :: "fval \<Rightarrow> fval list \<Rightarrow> fval list" where
  "cummax_from m [] = []"
| "cummax_from m (x # xs) =
     (if x = NaN then NaN # cummax_from m xs
      else (if flt m x then x else m) # cummax_from (if flt m x then x else m) xs)"

definition cummax :: "fval list \<Rightarrow> fval list" where
  "cummax xs = cummax_from NInf xs"

text \<open>The reductions \<open>min()\<close>, \<open>mean()\<close> and \<open>std()\<close> (one delta degree of freedom) skip NaN.\<close>

definition series_min :: "fval list \<Rightarrow> fval" where
  "series_min xs =
     (case dropna xs of [] \<Rightarrow> NaN
      | y # ys \<Rightarrow> foldl (\<lambda>m x. if flt x m then x else m) y ys)"

definition series_mean :: "fval list \<Rightarrow> fval" where
  "series_mean xs =
     (case dropna xs of [] \<Rightarrow> NaN
      | y # ys \<Rightarrow> fdiv (foldl fadd (Fin 0) (y # ys)) (Fin (real (length (y # ys)))))"

definition mean_r :: "real list \<Rightarrow> real" where
  "mean_r ys = sum_list ys / real (length ys)"

definition var_r :: "real list \<Rightarrow> real" where
  "var_r ys = sum_list (map (\<lambda>y. (y - mean_r ys)\<^sup>2) ys) / (real (length ys) - 1)"

definition std_r :: "real list \<Rightarrow> fval" where
  "std_r ys = (if 2 \<le> length ys then Fin (sqrt (var_r ys)) else NaN)"

definition series_std :: "fval list \<Rightarrow> fval" where
  "series_std xs =
     (let ys = dropna xs in if list_all is_fin ys then std_r (map real_of ys) else NaN)"

text \<open>
  \<open>rolling(window)\<close> raises for a negative window. Its \<open>mean()\<close> and \<open>std()\<close> need
  \<open>window\<close> observations (the default \<open>min_periods\<close>), none of them NaN or infinite,
  in the window that ends at the entry; otherwise the entry is NaN.
\<close>

definition window_at :: "nat \<Rightarrow> nat \<Rightarrow> fval list \<Rightarrow> fval list" where
  "window_at w i xs = take w (drop (i + 1 - w) xs)"

definition rolling_apply :: "(real list \<Rightarrow> fval) \<Rightarrow> nat \<Rightarrow> fval list \<Rightarrow> fval list" where
  "rolling_apply f w xs =
     map (\<lambda>i. if 1 \<le> w \<and> w \<le> i + 1 \<and> list_all is_fin (window_at w i xs)
              then f (map real_of (window_at w i xs)) else NaN)
         [0..<length xs]"

definition rolling_mean :: "int \<Rightarrow> fval list \<Rightarrow> error + fval list" where
  "rolling_mean window xs =
     (if window < 0 then Inl ValueError
      else Inr (rolling_apply (\<lambda>ys. Fin (mean_r ys)) (nat window) xs))"

definition rolling_std :: "int \<Rightarrow> fval list \<Rightarrow> error + fval list" where
  "rolling_std window xs =
     (if window < 0 then Inl ValueError
      else Inr (rolling_apply std_r (nat window) xs))"

text \<open>
  \<open>reindex(target)\<close>: the value at each label of the target, NaN for a label the series
  does not have. It raises when the series has a label twice, unless the target is the
  index of the series itself.
\<close>

definition reindex :: "('k \<times> fval) list \<Rightarrow> 'k list \<Rightarrow> error + ('k \<times> fval) list" where
  "reindex s target =
     (if index s = target then Inr s
      else if distinct (index s)
        then Inr (map (\<lambda>k. (k, case map_of s k of None \<Rightarrow> NaN | Some v \<Rightarrow> v)) target)
      else Inl ValueError)"

section \<open>Strategies\<close>

text \<open>
  The signal series is created as \<open>pd.Series(0, index=data.index)\<close>, a series of
  integers on the index of the prices; the assignments through a boolean mask overwrite
  it in the order of the source.
\<close>

subsection \<open>\<open>BaseStrategy.get_positions\<close>\<close>

definition get_positions :: "('k \<times> int) list \<Rightarrow> ('k \<times> fval) list" where
  "get_positions signals =
     zip (index signals) (fillna (Fin 0) (shift 1 (map (\<lambda>v. Fin (of_int v)) (vals signals))))"

subsection \<open>\<open>MomentumStrategy.generate_signals\<close>\<close>

definition momentum_signal :: "fval \<Rightarrow> int" where
  "momentum_signal m =
     (let s = 0;
          s = (if fgt m (Fin 0) then 1 else s);
          s = (if fle m (Fin 0) then - 1 else s)
      in s)"

definition momentum_generate_signals :: "int \<Rightarrow> ('k \<times> fval) list \<Rightarrow> ('k \<times> int) list" where
  "momentum_generate_signals lookback data =
     (let momentum = pct_change lookback (vals data)
      in zip (index data) (map momentum_signal momentum))"

subsection \<open>\<open>MovingAverageCrossover.generate_signals\<close>\<close>

definition crossover_signal :: "fval \<Rightarrow> fval \<Rightarrow> int" where
  "crossover_signal ma_fast ma_slow =
     (let s = 0;
          s = (if fgt ma_fast ma_slow then 1 else s);
          s = (if fle ma_fast ma_slow then - 1 else s)
      in s)"

definition crossover_generate_signals ::
  "int \<Rightarrow> int \<Rightarrow> ('k \<times> fval) list \<Rightarrow> error + ('k \<times> int) list" where
  "crossover_generate_signals fast slow data =
     (case rolling_mean fast (vals data) of
        Inl e \<Rightarrow> Inl e
      | Inr ma_fast \<Rightarrow>
          (case rolling_mean slow (vals data) of
             Inl e \<Rightarrow> Inl e
           | Inr ma_slow \<Rightarrow>
               Inr (zip (index data) (map2 crossover_signal ma_fast ma_slow))))"

subsection \<open>\<open>MeanReversionZScore.generate_signals\<close>\<close>

definition zscore_signal :: "real \<Rightarrow> fval \<Rightarrow> int" where
  "zscore_signal threshold z =
     (let s = 0;
          s = (if fgt z (Fin threshold) then - 1 else s);
          s = (if flt z (Fin (- threshold)) then 1 else s)
      in s)"

definition zscore_of :: "fval list \<Rightarrow> fval list \<Rightarrow> fval list \<Rightarrow> fval list" where
  "zscore_of xs rolling_mean_v rolling_std_v =
     map2 fdiv (map2 fsub xs rolling_mean_v) rolling_std_v"

definition mean_reversion_generate_signals ::
  "int \<Rightarrow> real \<Rightarrow> ('k \<times> fval) list \<Rightarrow> error + ('k \<times> int) list" where
  "mean_reversion_generate_signals window threshold data =
     (case rolling_mean window (vals data) of
        Inl e \<Rightarrow> Inl e
      | Inr rolling_mean_v \<Rightarrow>
          (case rolling_std window (vals data) of
             Inl e \<Rightarrow> Inl e
           | Inr rolling_std_v \<Rightarrow>
               Inr (zip (index data)
                      (map (zscore_signal threshold)
                         (zscore_of (vals data) rolling_mean_v rolling_std_v)))))"

section \<open>Backtester\<close>

text \<open>
  The three strategies of the repository, each with its name and its parameters;
  \<open>generate_signals\<close> is the method each class implements. The rolling series and the
  signals that a strategy also keeps on itself for plotting are not read by the backtester
  and are left out. Prices and returns are given as series (the first column of a table
  is taken before anything else is done with it).
\<close>

datatype strategy =
    MovingAverageCrossover string int int
  | MeanReversionZScore string int real
  | MomentumStrategy string int

fun name :: "strategy \<Rightarrow> string" where
  "name (MovingAverageCrossover n fast slow) = n"
| "name (MeanReversionZScore n window threshold) = n"
| "name (MomentumStrategy n lookback) = n"

fun generate_signals :: "strategy \<Rightarrow> ('k \<times> fval) list \<Rightarrow> error + ('k \<times> int) list" where
  "generate_signals (MovingAverageCrossover n fast slow) data =
     crossover_generate_signals fast slow data"
| "generate_signals (MeanReversionZScore n window threshold) data =
     mean_reversion_generate_signals window threshold data"
| "generate_signals (MomentumStrategy n lookback) data =
     Inr (momentum_generate_signals lookback data)"

record backtester =
  initial_capital :: real
  transaction_cost :: real

definition Backtester_init :: "real \<Rightarrow> real \<Rightarrow> backtester" where
  "Backtester_init capital cost = \<lparr>initial_capital = capital, transaction_cost = cost\<rparr>"

record metrics =
  Total_Return :: fval
  CAGR :: fval
  Volatility :: fval
  Sharpe_Ratio :: fval
  Max_Drawdown :: fval
  Calmar_Ratio :: fval
  Win_Rate :: fval
  Total_Trades :: int
  Avg_Win :: fval
  Avg_Loss :: fval
  Win_Loss_Ratio :: fval
  Buy_Hold_Return :: fval
  Outperformance :: fval

record 'k results =
  strategy_name :: string
  signals :: "('k \<times> int) list"
  positions :: "('k \<times> fval) list"
  strategy_returns :: "('k \<times> fval) list"
  cumulative_returns :: "('k \<times> fval) list"
  buy_hold_cumulative :: "('k \<times> fval) list"
  price_data :: "('k \<times> fval) list"
  market_returns :: "('k \<times> fval) list"
  metrics :: "metrics option"

subsection \<open>The return composition of \<open>Backtester.run\<close>\<close>

text \<open>
  \<open>trades = positions.diff().abs()\<close>, \<open>costs = trades * self.transaction_cost\<close> and
  \<open>strategy_returns = positions * returns_series - costs\<close>, on the values of two series
  with the same index.
\<close>

definition trades :: "fval list \<Rightarrow> fval list" where
  "trades pos = map fabs (diff pos)"

definition costs :: "real \<Rightarrow> fval list \<Rightarrow> fval list" where
  "costs cost pos = map (\<lambda>t. fmul t (Fin cost)) (trades pos)"

definition gross_returns :: "fval list \<Rightarrow> fval list \<Rightarrow> fval list" where
  "gross_returns pos rets = map2 fmul pos rets"

definition net_returns :: "real \<Rightarrow> fval list \<Rightarrow> fval list \<Rightarrow> fval list" where
  "net_returns cost pos rets = map2 fsub (gross_returns pos rets) (costs cost pos)"

text \<open>
  \<open>run\<close> up to the bundle it stores in \<open>self.results\<close> before the metrics are computed.
\<close>

definition run_results ::
  "backtester \<Rightarrow> strategy \<Rightarrow> ('k \<times> fval) list \<Rightarrow> ('k \<times> fval) list \<Rightarrow> error + 'k results" where
  "run_results self strategy price_series returns_series =
     (case generate_signals strategy price_series of
        Inl e \<Rightarrow> Inl e
      | Inr sigs \<Rightarrow>
          (case reindex (get_positions sigs) (index returns_series) of
             Inl e \<Rightarrow> Inl e
           | Inr aligned \<Rightarrow>
               (let pos = fillna (Fin 0) (vals aligned);
                    rets = vals returns_series;
                    net = net_returns (transaction_cost self) pos rets;
                    cumulative = cumprod (map (fadd (Fin 1)) net);
                    buy_hold = cumprod (map (fadd (Fin 1)) rets)
                in Inr \<lparr>strategy_name = name strategy,
                         signals = sigs,
                         positions = zip (index returns_series) pos,
                         strategy_returns = zip (index returns_series) net,
                         cumulative_returns = zip (index returns_series) cumulative,
                         buy_hold_cumulative = zip (index returns_series) buy_hold,
                         price_data = price_series,
                         market_returns = returns_series,
                         metrics = None\<rparr>)))"

subsection \<open>\<open>Backtester._calculate_metrics\<close>\<close>

definition iloc_last :: "'a list \<Rightarrow> error + 'a" where
  "iloc_last xs = (if xs = [] then Inl IndexError else Inr (last xs))"

definition drawdown :: "fval list \<Rightarrow> fval list" where
  "drawdown cum_returns =
     (let rolling_max = cummax cum_returns
      in map2 fdiv (map2 fsub cum_returns rolling_max) rolling_max)"

definition calculate_metrics :: "'k results \<Rightarrow> error + metrics" where
  "calculate_metrics res =
     (let returns = dropna (vals (strategy_returns res));
          cum_returns = vals (cumulative_returns res)
      in case iloc_last cum_returns of
        Inl e \<Rightarrow> Inl e
      | Inr last_cum \<Rightarrow>
          (let total_return = fsub last_cum (Fin 1);
               n_days = length returns;
               n_years = real n_days / 252;
               cagr = (if 0 < n_years
                       then fsub (fpow (fadd (Fin 1) total_return) (1 / n_years)) (Fin 1)
                       else Fin 0);
               volatility = fmul (series_std returns) (Fin (sqrt 252));
               sharpe = (if fgt (series_std returns) (Fin 0)
                         then fdiv (fmul (series_mean returns) (Fin 252))
                                (fmul (series_std returns) (Fin (sqrt 252)))
                         else Fin 0);
               max_drawdown = series_min (drawdown cum_returns);
               calmar = (if fne max_drawdown (Fin 0)
                         then fdiv cagr (fabs max_drawdown) else Fin 0);
               wins = length (filter (\<lambda>r. fgt r (Fin 0)) returns);
               total_trades = length (filter (\<lambda>r. fne r (Fin 0)) returns);
               win_rate = (if 0 < total_trades
                           then Fin (real wins / real total_trades) else Fin 0);
               avg_win = (if 0 < length (filter (\<lambda>r. fgt r (Fin 0)) returns)
                          then series_mean (filter (\<lambda>r. fgt r (Fin 0)) returns) else Fin 0);
               avg_loss = (if 0 < length (filter (\<lambda>r. flt r (Fin 0)) returns)
                           then series_mean (filter (\<lambda>r. flt r (Fin 0)) returns) else Fin 0);
               win_loss_ratio = (if fne avg_loss (Fin 0)
                                 then fabs (fdiv avg_win avg_loss) else Fin 0)
           in case iloc_last (vals (buy_hold_cumulative res)) of
             Inl e \<Rightarrow> Inl e
           | Inr last_buy_hold \<Rightarrow>
               (let buy_hold_return = fsub last_buy_hold (Fin 1);
                    outperformance = fsub total_return buy_hold_return
                in Inr \<lparr>Total_Return = total_return,
                         CAGR = cagr,
                         Volatility = volatility,
                         Sharpe_Ratio = sharpe,
                         Max_Drawdown = max_drawdown,
                         Calmar_Ratio = calmar,
                         Win_Rate = win_rate,
                         Total_Trades = int total_trades,
                         Avg_Win = avg_win,
                         Avg_Loss = avg_loss,
                         Win_Loss_Ratio = win_loss_ratio,
                         Buy_Hold_Return = buy_hold_return,
                         Outperformance = outperformance\<rparr>)))"

subsection \<open>\<open>Backtester.run\<close>\<close>

text \<open>
  The bundle with its metrics, which \<open>run\<close> returns and leaves in \<open>self.results\<close>; an
  exception of the strategy, of the alignment or of the metrics ends the run.
\<close>

definition run ::
  "backtester \<Rightarrow> strategy \<Rightarrow> ('k \<times> fval) list \<Rightarrow> ('k \<times> fval) list \<Rightarrow> error + 'k results" where
  "run self strategy price_data_in returns_data =
     (case run_results self strategy price_data_in returns_data of
        Inl e \<Rightarrow> Inl e
      | Inr res \<Rightarrow>
          (case calculate_metrics res of
             Inl e \<Rightarrow> Inl e
           | Inr m \<Rightarrow> Inr (res\<lparr>metrics := Some m\<rparr>)))"

subsection \<open>Ranges of values\<close>

text \<open>
  \<open>above l x\<close>: the value is NaN or a finite number greater than \<open>l\<close>;
  \<open>drawdown_range x\<close>: the value is NaN or a finite number in the interval from -1
  (excluded) to 0.
\<close>

fun above :: "real \<Rightarrow> fval \<Rightarrow> bool" where
  "above l (Fin a) = (l < a)"
| "above l NaN = True"
| "above l x = False"

fun drawdown_range :: "fval \<Rightarrow> bool" where
  "drawdown_range (Fin d) = (- 1 < d \<and> d \<le> 0)"
| "drawdown_range NaN = True"
| "drawdown_range x = False"

section \<open>Properties\<close>

lemma length_shift [simp]: "length (shift k xs) = length xs"
  by (auto simp: shift_def)

lemma length_fillna [simp]: "length (fillna v xs) = length xs"
  by (simp add: fillna_def)

lemma shift_warmup: "i < length xs \<Longrightarrow> int i < k \<Longrightarrow> shift k xs ! i = NaN"
  by (auto simp: shift_def nth_append)

lemma shift_later: "i < length xs \<Longrightarrow> 0 \<le> k \<Longrightarrow> k \<le> int i \<Longrightarrow> shift k xs ! i = xs ! (i - nat k)"
  by (auto simp: shift_def nth_append)

lemma length_vals [simp]: "length (vals s) = length s"
  by (simp add: vals_def)

lemma length_index [simp]: "length (index s) = length s"
  by (simp add: index_def)

lemma index_zip [simp]: "length vs = length s \<Longrightarrow> index (zip (index s) vs) = index s"
  by (simp add: index_def)

lemma vals_zip [simp]: "length vs = length s \<Longrightarrow> vals (zip (index s) vs) = vs"
  by (simp add: index_def vals_def)

text \<open>
  C5. For every signal series, \<open>get_positions\<close> returns a series on the same timestamps
  whose value is 0 at the first timestamp and, at every later timestamp \<open>t\<close>, the signal
  at \<open>t - 1\<close>.
\<close>

theorem get_positions_shifts_by_one:
  "index (get_positions sigs) = index sigs \<and>
   (\<forall>t < length sigs.
      vals (get_positions sigs) ! t =
        (if t = 0 then Fin 0 else Fin (of_int (vals sigs ! (t - 1)))))"
proof -
  let ?xs = "map (\<lambda>v. Fin (of_int v)) (vals sigs)"
  have len: "length ?xs = length sigs" by simp
  have v: "vals (get_positions sigs) = fillna (Fin 0) (shift 1 ?xs)"
    by (simp add: get_positions_def len)
  have i: "index (get_positions sigs) = index sigs"
    by (simp add: get_positions_def len)
  have "vals (get_positions sigs) ! t =
          (if t = 0 then Fin 0 else Fin (of_int (vals sigs ! (t - 1))))"
    if "t < length sigs" for t
  proof (cases "t = 0")
    case True
    with that have "shift 1 ?xs ! t = NaN" by (simp add: shift_warmup len)
    with that True show ?thesis by (simp add: v fillna_def)
  next
    case False
    with that have "shift 1 ?xs ! t = ?xs ! (t - 1)"
      using shift_later [of t ?xs 1] by (simp add: len)
    with that False show ?thesis by (simp add: v fillna_def)
  qed
  with i show ?thesis by blast
qed

theorem get_positions_shifts_by_one_witness:
  "index (get_positions [(10::nat, 1), (11, - 1), (12, 0)]) = [10, 11, 12] \<and>
   vals (get_positions [(10::nat, 1), (11, - 1), (12, 0)]) ! 0 = Fin 0 \<and>
   vals (get_positions [(10::nat, 1), (11, - 1), (12, 0)]) ! 1 = Fin 1 \<and>
   vals (get_positions [(10::nat, 1), (11, - 1), (12, 0)]) ! 2 = Fin (- 1)"
  using get_positions_shifts_by_one [of "[(10::nat, 1), (11, - 1), (12, 0)]"]
  by (simp add: index_def vals_def)


subsection \<open>Momentum\<close>

lemma length_ffill_from [simp]: "length (ffill_from l xs) = length xs"
  by (induction xs arbitrary: l) auto

lemma length_pct_change [simp]: "length (pct_change k xs) = length xs"
  by (simp add: pct_change_def ffill_def Let_def)

lemma pct_change_warmup:
  assumes "t < length xs" and "int t < k"
  shows "pct_change k xs ! t = NaN"
proof -
  have "shift k (ffill xs) ! t = NaN"
    using assms by (simp add: shift_warmup ffill_def)
  moreover have "fdiv a NaN = NaN" for a by (cases a) simp_all
  ultimately show ?thesis
    using assms by (simp add: pct_change_def Let_def ffill_def fsub_def)
qed

lemma momentum_signal_cases:
  "(m = NaN \<longrightarrow> momentum_signal m = 0) \<and>
   (fgt m (Fin 0) \<longrightarrow> m \<noteq> NaN \<and> momentum_signal m = 1) \<and>
   (m \<noteq> NaN \<and> \<not> fgt m (Fin 0) \<longrightarrow> fle m (Fin 0) \<and> momentum_signal m = - 1)"
  by (cases m) (auto simp: momentum_signal_def fgt_def fle_def)

text \<open>
  C1, the warm-up at a concrete input: with lookback 1 on the prices 1, 2 the momentum
  is undefined at the first observation and the signal there is 0, not -1.
\<close>

theorem momentum_warmup_counterexample:
  "pct_change 1 [Fin 1, Fin 2] ! 0 = NaN \<and>
   vals (momentum_generate_signals 1 [(0::nat, Fin 1), (1, Fin 2)]) = [0, 1] \<and>
   vals (momentum_generate_signals 1 [(0::nat, Fin 1), (1, Fin 2)]) ! 0 \<noteq> - 1"
  by (simp add: momentum_generate_signals_def pct_change_def ffill_def shift_def
      fsub_def momentum_signal_def fgt_def fle_def vals_def index_def)

text \<open>
  C1, as the code has it. For every price series the momentum signals are on the index of
  the prices; the signal is +1 where the momentum is defined and greater than 0, -1 where
  it is defined and at most 0, and 0 where it is not defined (NaN), which is the case at
  each of the first \<open>lookback\<close> observations.
\<close>

theorem momentum_signals_classified:
  "index (momentum_generate_signals lookback data) = index data \<and>
   (\<forall>t < length data.
      (pct_change lookback (vals data) ! t = NaN \<longrightarrow>
         vals (momentum_generate_signals lookback data) ! t = 0) \<and>
      (fgt (pct_change lookback (vals data) ! t) (Fin 0) \<longrightarrow>
         pct_change lookback (vals data) ! t \<noteq> NaN \<and>
         vals (momentum_generate_signals lookback data) ! t = 1) \<and>
      (pct_change lookback (vals data) ! t \<noteq> NaN \<and>
       \<not> fgt (pct_change lookback (vals data) ! t) (Fin 0) \<longrightarrow>
         fle (pct_change lookback (vals data) ! t) (Fin 0) \<and>
         vals (momentum_generate_signals lookback data) ! t = - 1) \<and>
      (int t < lookback \<longrightarrow>
         pct_change lookback (vals data) ! t = NaN \<and>
         vals (momentum_generate_signals lookback data) ! t = 0))"
proof -
  let ?m = "pct_change lookback (vals data)"
  have v: "vals (momentum_generate_signals lookback data) = map momentum_signal ?m"
    by (simp add: momentum_generate_signals_def Let_def)
  have i: "index (momentum_generate_signals lookback data) = index data"
    by (simp add: momentum_generate_signals_def Let_def)
  have s: "vals (momentum_generate_signals lookback data) ! t = momentum_signal (?m ! t)"
    if "t < length data" for t
    using that by (simp add: v)
  have w: "?m ! t = NaN" if "t < length data" "int t < lookback" for t
    using that by (simp add: pct_change_warmup)
  show ?thesis
    using i s w momentum_signal_cases by metis
qed

theorem momentum_signals_classified_witness:
  "index (momentum_generate_signals 1 [(0::nat, Fin 2), (1, Fin 3), (2, Fin 3)]) = [0, 1, 2] \<and>
   pct_change 1 [Fin 2, Fin 3, Fin 3] = [NaN, Fin (1 / 2), Fin 0] \<and>
   vals (momentum_generate_signals 1 [(0::nat, Fin 2), (1, Fin 3), (2, Fin 3)]) ! 0 = 0 \<and>
   vals (momentum_generate_signals 1 [(0::nat, Fin 2), (1, Fin 3), (2, Fin 3)]) ! 1 = 1 \<and>
   vals (momentum_generate_signals 1 [(0::nat, Fin 2), (1, Fin 3), (2, Fin 3)]) ! 2 = - 1"
  using momentum_signals_classified [of 1 "[(0::nat, Fin 2), (1, Fin 3), (2, Fin 3)]"]
  by (simp add: pct_change_def ffill_def shift_def fsub_def fgt_def fle_def vals_def index_def)


subsection \<open>Rolling statistics\<close>

lemma length_rolling_apply [simp]: "length (rolling_apply f w xs) = length xs"
  by (simp add: rolling_apply_def)

lemma rolling_apply_nth:
  "t < length xs \<Longrightarrow>
   rolling_apply f w xs ! t =
     (if 1 \<le> w \<and> w \<le> t + 1 \<and> list_all is_fin (window_at w t xs)
      then f (map real_of (window_at w t xs)) else NaN)"
  by (simp add: rolling_apply_def)

lemma rolling_apply_warmup:
  "t < length xs \<Longrightarrow> t + 1 < w \<Longrightarrow> rolling_apply f w xs ! t = NaN"
  by (simp add: rolling_apply_nth)

lemma length_window_at:
  "t < length xs \<Longrightarrow> w \<le> t + 1 \<Longrightarrow> length (window_at w t xs) = w"
  by (simp add: window_at_def)

lemma window_at_last:
  assumes "t < length xs" and "1 \<le> w" and "w \<le> t + 1"
  shows "window_at w t xs ! (w - 1) = xs ! t"
  using assms by (simp add: window_at_def)

lemma is_fin_conv: "is_fin x \<longleftrightarrow> (\<exists>a. x = Fin a)"
  by (cases x) simp_all

lemma is_fin_real_of: "is_fin x \<Longrightarrow> Fin (real_of x) = x"
  by (cases x) simp_all

subsection \<open>Moving-average crossover\<close>

lemma crossover_signal_cases:
  "crossover_signal NaN y = 0" "crossover_signal x NaN = 0"
  "crossover_signal (Fin a) (Fin b) = (if b < a then 1 else - 1)"
  by (cases x; cases y; simp add: crossover_signal_def fgt_def fle_def)+

text \<open>
  C6. For every price series (and window lengths that \<open>rolling\<close> accepts), the crossover
  signals are on the index of the prices; a rolling mean is a finite number or NaN, and is
  NaN while fewer than its window of observations are there; the signal is 0 where either
  mean is NaN, +1 where both are defined and the fast mean is greater, -1 where both are
  defined and the fast mean is smaller or equal.
\<close>

theorem crossover_signals_classified:
  assumes "0 \<le> fast" and "0 \<le> slow"
  shows "\<exists>sigs ma_fast ma_slow.
     crossover_generate_signals fast slow data = Inr sigs \<and>
     rolling_mean fast (vals data) = Inr ma_fast \<and>
     rolling_mean slow (vals data) = Inr ma_slow \<and>
     index sigs = index data \<and>
     (\<forall>t < length data.
        (is_fin (ma_fast ! t) \<or> ma_fast ! t = NaN) \<and>
        (is_fin (ma_slow ! t) \<or> ma_slow ! t = NaN) \<and>
        (int t + 1 < fast \<longrightarrow> ma_fast ! t = NaN) \<and>
        (int t + 1 < slow \<longrightarrow> ma_slow ! t = NaN) \<and>
        (ma_fast ! t = NaN \<or> ma_slow ! t = NaN \<longrightarrow> vals sigs ! t = 0) \<and>
        (\<forall>a b. ma_fast ! t = Fin a \<and> ma_slow ! t = Fin b \<longrightarrow>
           vals sigs ! t = (if b < a then 1 else - 1)))"
proof -
  let ?mean = "\<lambda>ys. Fin (mean_r ys)"
  let ?f = "rolling_apply ?mean (nat fast) (vals data)"
  let ?s = "rolling_apply ?mean (nat slow) (vals data)"
  let ?sigs = "zip (index data) (map2 crossover_signal ?f ?s)"
  have rf: "rolling_mean fast (vals data) = Inr ?f"
    using assms by (simp add: rolling_mean_def)
  have rs: "rolling_mean slow (vals data) = Inr ?s"
    using assms by (simp add: rolling_mean_def)
  have g: "crossover_generate_signals fast slow data = Inr ?sigs"
    by (simp add: crossover_generate_signals_def rf rs)
  have i: "index ?sigs = index data" by simp
  have v: "vals ?sigs ! t = crossover_signal (?f ! t) (?s ! t)" if "t < length data" for t
    using that by simp
  have fin: "is_fin (rolling_apply ?mean w (vals data) ! t) \<or>
             rolling_apply ?mean w (vals data) ! t = NaN" if "t < length data" for t w
    using that by (simp add: rolling_apply_nth)
  have warm: "rolling_apply ?mean (nat w) (vals data) ! t = NaN"
    if "t < length data" "int t + 1 < w" for t w
    using that by (intro rolling_apply_warmup) auto
  have "(is_fin (?f ! t) \<or> ?f ! t = NaN) \<and>
        (is_fin (?s ! t) \<or> ?s ! t = NaN) \<and>
        (int t + 1 < fast \<longrightarrow> ?f ! t = NaN) \<and>
        (int t + 1 < slow \<longrightarrow> ?s ! t = NaN) \<and>
        (?f ! t = NaN \<or> ?s ! t = NaN \<longrightarrow> vals ?sigs ! t = 0) \<and>
        (\<forall>a b. ?f ! t = Fin a \<and> ?s ! t = Fin b \<longrightarrow>
           vals ?sigs ! t = (if b < a then 1 else - 1))"
    if t: "t < length data" for t
    using fin [OF t] warm [OF t] v [OF t] by (auto simp: crossover_signal_cases)
  with g rf rs i show ?thesis by blast
qed

theorem crossover_signals_classified_witness:
  "(0::int) \<le> 2 \<and> (0::int) \<le> 3 \<and>
   rolling_mean 2 [Fin 6, Fin 6, Fin 6, Fin 9, Fin 3] =
     Inr [NaN, Fin 6, Fin 6, Fin (15 / 2), Fin 6] \<and>
   rolling_mean 3 [Fin 6, Fin 6, Fin 6, Fin 9, Fin 3] =
     Inr [NaN, NaN, Fin 6, Fin 7, Fin 6] \<and>
   crossover_generate_signals 2 3
       [(0::nat, Fin 6), (1, Fin 6), (2, Fin 6), (3, Fin 9), (4, Fin 3)] =
     Inr [(0, 0), (1, 0), (2, - 1), (3, 1), (4, - 1)]"
  using crossover_signals_classified
    [of 2 3 "[(0::nat, Fin 6), (1, Fin 6), (2, Fin 6), (3, Fin 9), (4, Fin 3)]"]
  by (simp add: crossover_generate_signals_def rolling_mean_def rolling_apply_def
      window_at_def mean_r_def crossover_signal_def fgt_def fle_def vals_def index_def)

subsection \<open>Mean reversion\<close>

lemma fdiv_NaN_right [simp]: "fdiv x NaN = NaN"
  by (cases x) simp_all

lemma fsub_NaN_right [simp]: "fsub x NaN = NaN"
  by (cases x) (simp_all add: fsub_def)

lemma zscore_signal_NaN [simp]: "zscore_signal threshold NaN = 0"
  by (simp add: zscore_signal_def fgt_def)

lemma zscore_signal_cases:
  assumes "0 \<le> threshold"
  shows "(fgt z (Fin threshold) \<longrightarrow> zscore_signal threshold z = - 1) \<and>
         (flt z (Fin (- threshold)) \<longrightarrow> zscore_signal threshold z = 1) \<and>
         (\<not> fgt z (Fin threshold) \<and> \<not> flt z (Fin (- threshold)) \<longrightarrow>
            zscore_signal threshold z = 0)"
  using assms by (cases z) (auto simp: zscore_signal_def fgt_def)

text \<open>
  For a negative threshold the two masks overlap, and the later assignment (+1) stands.
\<close>

lemma zscore_signal_negative_threshold: "zscore_signal (- 1) (Fin 0) = 1"
  by (simp add: zscore_signal_def fgt_def)

lemma var_r_zero_all_mean:
  assumes "2 \<le> length ys" and "sqrt (var_r ys) = 0" and "y \<in> set ys"
  shows "y = mean_r ys"
proof -
  let ?sq = "map (\<lambda>y. (y - mean_r ys)\<^sup>2) ys"
  from assms(2) have "var_r ys = 0" by simp
  moreover from assms(1) have "real (length ys) - 1 \<noteq> 0" by simp
  ultimately have "sum_list ?sq = 0" by (simp add: var_r_def)
  moreover have "0 \<le> q" if "q \<in> set ?sq" for q using that by auto
  ultimately have "\<forall>q \<in> set ?sq. q = 0"
    using sum_list_nonneg_eq_0_iff [of ?sq] by blast
  with assms(3) have "(y - mean_r ys)\<^sup>2 = 0" by simp
  then show ?thesis by simp
qed

text \<open>
  A rolling standard deviation that is exactly 0: the window is constant, the price is the
  rolling mean, and the z-score is 0 / 0.
\<close>

lemma zscore_at_zero_std:
  assumes t: "t < length xs"
    and z: "rolling_apply std_r w xs ! t = Fin 0"
  shows "fdiv (fsub (xs ! t) (rolling_apply (\<lambda>ys. Fin (mean_r ys)) w xs ! t))
              (rolling_apply std_r w xs ! t) = NaN"
proof -
  let ?win = "window_at w t xs"
  let ?ys = "map real_of ?win"
  have c: "1 \<le> w \<and> w \<le> t + 1 \<and> list_all is_fin ?win"
    using z t by (simp add: rolling_apply_nth split: if_splits)
  with z t have s: "std_r ?ys = Fin 0" by (simp add: rolling_apply_nth)
  then have two: "2 \<le> length ?ys" and sq: "sqrt (var_r ?ys) = 0"
    by (simp_all add: std_r_def split: if_splits)
  have len: "length ?win = w" using c t by (simp add: length_window_at)
  have last: "?win ! (w - 1) = xs ! t" using window_at_last [of t xs w] c t by blast
  have mem: "xs ! t \<in> set ?win"
    using len c last by (metis One_nat_def diff_less less_numeral_extra(1) nth_mem
        not_less not_one_le_zero zero_less_iff_neq_zero)
  then have fin: "is_fin (xs ! t)" using c by (simp add: list_all_iff)
  from mem have "real_of (xs ! t) \<in> set ?ys" by simp
  then have "real_of (xs ! t) = mean_r ?ys"
    using var_r_zero_all_mean [OF two sq] by blast
  with fin have x: "xs ! t = Fin (mean_r ?ys)" using is_fin_real_of by metis
  have m: "rolling_apply (\<lambda>ys. Fin (mean_r ys)) w xs ! t = Fin (mean_r ?ys)"
    using c t by (simp add: rolling_apply_nth)
  show ?thesis by (simp add: z m x fsub_def)
qed


lemma length_zscore_of:
  "length rm = length xs \<Longrightarrow> length rs = length xs \<Longrightarrow> length (zscore_of xs rm rs) = length xs"
  by (simp add: zscore_of_def)

lemma zscore_of_nth:
  "t < length xs \<Longrightarrow> length rm = length xs \<Longrightarrow> length rs = length xs \<Longrightarrow>
   zscore_of xs rm rs ! t = fdiv (fsub (xs ! t) (rm ! t)) (rs ! t)"
  by (simp add: zscore_of_def)

lemma sqrt_nine: "sqrt 9 = 3"
  using real_sqrt_abs [of 3] by simp

text \<open>
  C7. For every price series (a window length that \<open>rolling\<close> accepts and a threshold that
  is not negative), the mean-reversion signals are on the index of the prices and no error
  is raised; the signal is -1 where the z-score exceeds the threshold, +1 where it is
  below the negated threshold and 0 otherwise; where the rolling standard deviation is
  exactly 0, or a rolling statistic is NaN (as it is while fewer than \<open>window\<close>
  observations are there), the z-score is NaN and the signal is 0.
\<close>

theorem mean_reversion_signals_classified:
  assumes "0 \<le> window" and "0 \<le> threshold"
  shows "\<exists>sigs rm rs.
     mean_reversion_generate_signals window threshold data = Inr sigs \<and>
     rolling_mean window (vals data) = Inr rm \<and>
     rolling_std window (vals data) = Inr rs \<and>
     index sigs = index data \<and>
     (\<forall>t < length data.
        (fgt (zscore_of (vals data) rm rs ! t) (Fin threshold) \<longrightarrow> vals sigs ! t = - 1) \<and>
        (flt (zscore_of (vals data) rm rs ! t) (Fin (- threshold)) \<longrightarrow> vals sigs ! t = 1) \<and>
        (\<not> fgt (zscore_of (vals data) rm rs ! t) (Fin threshold) \<and>
         \<not> flt (zscore_of (vals data) rm rs ! t) (Fin (- threshold)) \<longrightarrow>
           vals sigs ! t = 0) \<and>
        (rs ! t = Fin 0 \<or> rs ! t = NaN \<or> rm ! t = NaN \<longrightarrow>
           zscore_of (vals data) rm rs ! t = NaN \<and> vals sigs ! t = 0) \<and>
        (int t + 1 < window \<longrightarrow> rm ! t = NaN \<and> rs ! t = NaN))"
proof -
  let ?xs = "vals data"
  let ?rm = "rolling_apply (\<lambda>ys. Fin (mean_r ys)) (nat window) ?xs"
  let ?rs = "rolling_apply std_r (nat window) ?xs"
  let ?z = "zscore_of ?xs ?rm ?rs"
  let ?sigs = "zip (index data) (map (zscore_signal threshold) ?z)"
  have rm: "rolling_mean window ?xs = Inr ?rm"
    using assms(1) by (simp add: rolling_mean_def)
  have rs: "rolling_std window ?xs = Inr ?rs"
    using assms(1) by (simp add: rolling_std_def)
  have g: "mean_reversion_generate_signals window threshold data = Inr ?sigs"
    by (simp add: mean_reversion_generate_signals_def rm rs)
  have lz: "length ?z = length data" by (simp add: length_zscore_of)
  have i: "index ?sigs = index data" by (simp add: lz)
  have v: "vals ?sigs ! t = zscore_signal threshold (?z ! t)" if "t < length data" for t
    using that by (simp add: lz)
  have z: "?z ! t = fdiv (fsub (?xs ! t) (?rm ! t)) (?rs ! t)" if "t < length data" for t
    using that by (simp add: zscore_of_nth)
  have z0: "?z ! t = NaN" if "t < length data" "?rs ! t = Fin 0" for t
    using that zscore_at_zero_std [of t ?xs "nat window"] by (simp add: z)
  have zn: "?z ! t = NaN" if "t < length data" "?rs ! t = NaN \<or> ?rm ! t = NaN" for t
    using that by (auto simp: z)
  have warm: "rolling_apply f (nat window) ?xs ! t = NaN"
    if "t < length data" "int t + 1 < window" for t f
    using that by (intro rolling_apply_warmup) auto
  have "(fgt (?z ! t) (Fin threshold) \<longrightarrow> vals ?sigs ! t = - 1) \<and>
        (flt (?z ! t) (Fin (- threshold)) \<longrightarrow> vals ?sigs ! t = 1) \<and>
        (\<not> fgt (?z ! t) (Fin threshold) \<and> \<not> flt (?z ! t) (Fin (- threshold)) \<longrightarrow>
           vals ?sigs ! t = 0) \<and>
        (?rs ! t = Fin 0 \<or> ?rs ! t = NaN \<or> ?rm ! t = NaN \<longrightarrow>
           ?z ! t = NaN \<and> vals ?sigs ! t = 0) \<and>
        (int t + 1 < window \<longrightarrow> ?rm ! t = NaN \<and> ?rs ! t = NaN)"
    if t: "t < length data" for t
  proof -
    have "?rs ! t = Fin 0 \<or> ?rs ! t = NaN \<or> ?rm ! t = NaN \<longrightarrow>
            ?z ! t = NaN \<and> vals ?sigs ! t = 0"
      using z0 [OF t] zn [OF t] v [OF t] by auto
    moreover have "int t + 1 < window \<longrightarrow> ?rm ! t = NaN \<and> ?rs ! t = NaN"
      using warm [OF t] by blast
    moreover note zscore_signal_cases [OF assms(2), of "?z ! t"]
    ultimately show ?thesis
      unfolding v [OF t] by blast
  qed
  with g rm rs i show ?thesis by blast
qed

theorem mean_reversion_signals_classified_witness:
  "(0::int) \<le> 3 \<and> (0::real) \<le> 1 / 2 \<and>
   rolling_mean 3 [Fin 4, Fin 4, Fin 4, Fin 1, Fin 7, Fin 4, Fin 1] =
     Inr [NaN, NaN, Fin 4, Fin 3, Fin 4, Fin 4, Fin 4] \<and>
   rolling_std 3 [Fin 4, Fin 4, Fin 4] = Inr [NaN, NaN, Fin 0] \<and>
   rolling_std 3 [Fin 4, Fin 1, Fin 7, Fin 4, Fin 1] = Inr [NaN, NaN, Fin 3, Fin 3, Fin 3] \<and>
   mean_reversion_generate_signals 3 (1 / 2) [(0::nat, Fin 4), (1, Fin 4), (2, Fin 4)] =
     Inr [(0, 0), (1, 0), (2, 0)] \<and>
   mean_reversion_generate_signals 3 (1 / 2)
       [(0::nat, Fin 4), (1, Fin 1), (2, Fin 7), (3, Fin 4), (4, Fin 1)] =
     Inr [(0, 0), (1, 0), (2, - 1), (3, 0), (4, 1)]"
  using mean_reversion_signals_classified [of 3 "1 / 2" "[(0::nat, Fin 4), (1, Fin 4), (2, Fin 4)]"]
    mean_reversion_signals_classified
      [of 3 "1 / 2" "[(0::nat, Fin 4), (1, Fin 1), (2, Fin 7), (3, Fin 4), (4, Fin 1)]"]
  by (simp add: mean_reversion_generate_signals_def rolling_mean_def rolling_std_def
      rolling_apply_def window_at_def mean_r_def var_r_def std_r_def zscore_of_def
      zscore_signal_def fsub_def fgt_def vals_def index_def power2_eq_square sqrt_nine)


subsection \<open>Return composition\<close>

lemma length_diff [simp]: "length (diff xs) = length xs"
  by (simp add: diff_def)

lemma diff_first: "xs \<noteq> [] \<Longrightarrow> diff xs ! 0 = NaN"
  using shift_warmup [of 0 xs 1] by (simp add: diff_def)

lemma diff_later: "0 < t \<Longrightarrow> t < length xs \<Longrightarrow> diff xs ! t = fsub (xs ! t) (xs ! (t - 1))"
  using shift_later [of t xs 1] by (simp add: diff_def)

lemma length_trades [simp]: "length (trades pos) = length pos"
  by (simp add: trades_def)

lemma length_costs [simp]: "length (costs c pos) = length pos"
  by (simp add: costs_def)

lemma length_gross_returns [simp]:
  "length (gross_returns pos rets) = min (length pos) (length rets)"
  by (simp add: gross_returns_def)

lemma length_net_returns [simp]:
  "length (net_returns c pos rets) = min (length pos) (length rets)"
  by (simp add: net_returns_def)

lemma trades_first: "pos \<noteq> [] \<Longrightarrow> trades pos ! 0 = NaN"
  by (simp add: trades_def diff_first)

lemma trades_later:
  "0 < t \<Longrightarrow> t < length pos \<Longrightarrow> trades pos ! t = fabs (fsub (pos ! t) (pos ! (t - 1)))"
  by (simp add: trades_def diff_later)

lemma costs_nth: "t < length pos \<Longrightarrow> costs c pos ! t = fmul (trades pos ! t) (Fin c)"
  by (simp add: costs_def)

lemma costs_first: "pos \<noteq> [] \<Longrightarrow> costs c pos ! 0 = NaN"
  by (simp add: costs_def trades_first)

lemma net_returns_nth:
  "t < length pos \<Longrightarrow> length pos = length rets \<Longrightarrow>
   net_returns c pos rets ! t = fsub (fmul (pos ! t) (rets ! t)) (costs c pos ! t)"
  by (simp add: net_returns_def gross_returns_def)

text \<open>
  C3, at a concrete input: for the single position 0 the trade indicator and the cost at
  the first timestamp are NaN, not 0.
\<close>

theorem first_trade_counterexample:
  "trades [Fin 0] ! 0 = NaN \<and> costs (1 / 1000) [Fin 0] ! 0 = NaN \<and>
   costs (1 / 1000) [Fin 0] ! 0 \<noteq> Fin (\<bar>0\<bar> * (1 / 1000))"
  by (simp add: costs_def trades_def diff_def shift_def fsub_def)

text \<open>
  C3, as the code has it. The trade indicator at the first timestamp of the aligned
  positions is NaN (\<open>diff\<close> has no predecessor there and none is supplied), and so is the
  cost, whatever the first position is; at every later timestamp the trade indicator is
  \<open>|position[t] - position[t-1]|\<close> and the cost is the trade indicator times the cost
  rate.
\<close>

theorem first_trade_is_nan:
  assumes "pos \<noteq> []"
  shows "trades pos ! 0 = NaN \<and> costs c pos ! 0 = NaN \<and>
         (\<forall>t. 0 < t \<and> t < length pos \<longrightarrow>
            trades pos ! t = fabs (fsub (pos ! t) (pos ! (t - 1))) \<and>
            costs c pos ! t = fmul (fabs (fsub (pos ! t) (pos ! (t - 1)))) (Fin c))"
  using assms by (simp add: trades_first trades_later costs_nth costs_first)

theorem first_trade_is_nan_witness:
  "[Fin 1, Fin 1, Fin (- 1)] \<noteq> [] \<and>
   trades [Fin 1, Fin 1, Fin (- 1)] = [NaN, Fin 0, Fin 2] \<and>
   costs (1 / 1000) [Fin 1, Fin 1, Fin (- 1)] = [NaN, Fin 0, Fin (2 / 1000)]"
  using first_trade_is_nan [of "[Fin 1, Fin 1, Fin (- 1)]" "1 / 1000"]
  by (simp add: costs_def trades_def diff_def shift_def fsub_def)

text \<open>
  C2, at a concrete input: in a flat market, at a timestamp where the position changes
  from 0 to 1, the cost is the cost rate and the net return is minus the cost rate; at
  the first timestamp both are NaN.
\<close>

theorem flat_market_counterexample:
  "costs (1 / 1000) [Fin 0, Fin 1] = [NaN, Fin (1 / 1000)] \<and>
   net_returns (1 / 1000) [Fin 0, Fin 1] [Fin 0, Fin 0] = [NaN, Fin (- (1 / 1000))] \<and>
   costs (1 / 1000) [Fin 0, Fin 1] ! 1 \<noteq> Fin 0 \<and>
   net_returns (1 / 1000) [Fin 0, Fin 1] [Fin 0, Fin 0] ! 1 \<noteq> Fin 0"
  by (simp add: net_returns_def gross_returns_def costs_def trades_def diff_def shift_def
      fsub_def)

text \<open>
  C2, as the code has it. For every series of finite positions and every market-returns
  series whose entries are all exactly zero, the gross return is zero at every timestamp;
  at every timestamp after the first the cost is \<open>|position[t] - position[t-1]|\<close> times
  the cost rate and the net return is minus the cost, so both are zero where the position
  did not change; at the first timestamp the cost and the net return are NaN.
\<close>

theorem flat_market_returns:
  assumes "length pos = length rets"
    and "list_all is_fin pos"
    and "list_all (\<lambda>r. r = Fin 0) rets"
  shows "\<forall>t < length rets.
     gross_returns pos rets ! t = Fin 0 \<and>
     (t = 0 \<longrightarrow> costs c pos ! t = NaN \<and> net_returns c pos rets ! t = NaN) \<and>
     (0 < t \<longrightarrow>
        costs c pos ! t = Fin (\<bar>real_of (pos ! t) - real_of (pos ! (t - 1))\<bar> * c) \<and>
        net_returns c pos rets ! t =
          Fin (- (\<bar>real_of (pos ! t) - real_of (pos ! (t - 1))\<bar> * c)) \<and>
        (pos ! t = pos ! (t - 1) \<longrightarrow>
           costs c pos ! t = Fin 0 \<and> net_returns c pos rets ! t = Fin 0))"
proof (intro allI impI)
  fix t assume t: "t < length rets"
  from assms t obtain a where a: "pos ! t = Fin a"
    by (metis is_fin_conv list_all_length)
  from assms t have r: "rets ! t = Fin 0" by (simp add: list_all_length)
  have g: "gross_returns pos rets ! t = Fin 0"
    using t assms(1) by (simp add: gross_returns_def a r)
  have n: "net_returns c pos rets ! t = fsub (Fin 0) (costs c pos ! t)"
    using t assms(1) by (simp add: net_returns_nth a r)
  have first: "costs c pos ! t = NaN \<and> net_returns c pos rets ! t = NaN" if "t = 0"
  proof -
    from t assms(1) have "pos \<noteq> []" by auto
    then have "costs c pos ! 0 = NaN" by (rule costs_first)
    with that n show ?thesis by simp
  qed
  have later: "costs c pos ! t = Fin (\<bar>real_of (pos ! t) - real_of (pos ! (t - 1))\<bar> * c) \<and>
        net_returns c pos rets ! t =
          Fin (- (\<bar>real_of (pos ! t) - real_of (pos ! (t - 1))\<bar> * c))" if "0 < t"
  proof -
    from assms t obtain b where b: "pos ! (t - 1) = Fin b"
      by (metis is_fin_conv list_all_length less_imp_diff_less)
    have "costs c pos ! t = Fin (\<bar>a - b\<bar> * c)"
      using that t assms(1) b by (simp add: costs_nth trades_later a fsub_def)
    with n b show ?thesis by (simp add: a fsub_def)
  qed
  show "gross_returns pos rets ! t = Fin 0 \<and>
     (t = 0 \<longrightarrow> costs c pos ! t = NaN \<and> net_returns c pos rets ! t = NaN) \<and>
     (0 < t \<longrightarrow>
        costs c pos ! t = Fin (\<bar>real_of (pos ! t) - real_of (pos ! (t - 1))\<bar> * c) \<and>
        net_returns c pos rets ! t =
          Fin (- (\<bar>real_of (pos ! t) - real_of (pos ! (t - 1))\<bar> * c)) \<and>
        (pos ! t = pos ! (t - 1) \<longrightarrow>
           costs c pos ! t = Fin 0 \<and> net_returns c pos rets ! t = Fin 0))"
    using g first later by auto
qed

theorem flat_market_returns_witness:
  "length [Fin 0, Fin 1, Fin 1] = length [Fin 0, Fin 0, Fin 0] \<and>
   list_all is_fin [Fin 0, Fin 1, Fin 1] \<and>
   list_all (\<lambda>r. r = Fin 0) [Fin 0, Fin 0, Fin 0] \<and>
   gross_returns [Fin 0, Fin 1, Fin 1] [Fin 0, Fin 0, Fin 0] = [Fin 0, Fin 0, Fin 0] \<and>
   costs (1 / 1000) [Fin 0, Fin 1, Fin 1] = [NaN, Fin (1 / 1000), Fin 0] \<and>
   net_returns (1 / 1000) [Fin 0, Fin 1, Fin 1] [Fin 0, Fin 0, Fin 0] =
     [NaN, Fin (- (1 / 1000)), Fin 0]"
  using flat_market_returns [of "[Fin 0, Fin 1, Fin 1]" "[Fin 0, Fin 0, Fin 0]" "1 / 1000"]
  by (simp add: net_returns_def gross_returns_def costs_def trades_def diff_def shift_def
      fsub_def)

text \<open>
  C4, at a concrete input: with cost rate 0 and the position +1, the net return at the
  first timestamp is NaN, not the market return.
\<close>

theorem always_long_counterexample:
  "net_returns 0 [Fin 1, Fin 1] [Fin (1 / 2), Fin (1 / 4)] = [NaN, Fin (1 / 4)] \<and>
   net_returns 0 [Fin 1, Fin 1] [Fin (1 / 2), Fin (1 / 4)] ! 0 \<noteq>
     [Fin (1 / 2), Fin (1 / 4)] ! 0"
  by (simp add: net_returns_def gross_returns_def costs_def trades_def diff_def shift_def
      fsub_def)

text \<open>
  C4, as the code has it. For every market-returns series, if the cost rate is 0 and the
  aligned position is +1 at every timestamp, the net return equals the market return at
  every timestamp after the first; at the first timestamp it is NaN.
\<close>

theorem always_long_zero_cost:
  assumes "length pos = length rets"
    and "list_all (\<lambda>p. p = Fin 1) pos"
  shows "\<forall>t < length rets.
     (0 < t \<longrightarrow> net_returns 0 pos rets ! t = rets ! t) \<and>
     (t = 0 \<longrightarrow> net_returns 0 pos rets ! t = NaN)"
proof (intro allI impI)
  fix t assume t: "t < length rets"
  from assms t have p: "pos ! t = Fin 1" by (simp add: list_all_length)
  have one: "fmul (Fin 1) r = r" for r by (cases r) simp_all
  have zero: "fsub r (Fin 0) = r" for r by (cases r) (simp_all add: fsub_def)
  have n: "net_returns 0 pos rets ! t = fsub (rets ! t) (costs 0 pos ! t)"
    using t assms(1) by (simp add: net_returns_nth p one)
  have "net_returns 0 pos rets ! t = NaN" if "t = 0"
  proof -
    from t assms(1) have "pos \<noteq> []" by auto
    then have "costs 0 pos ! 0 = NaN" by (rule costs_first)
    with that n show ?thesis by simp
  qed
  moreover have "net_returns 0 pos rets ! t = rets ! t" if "0 < t"
  proof -
    from assms t have "pos ! (t - 1) = Fin 1" by (simp add: list_all_length)
    then have "costs 0 pos ! t = Fin 0"
      using that t assms(1) by (simp add: costs_nth trades_later p fsub_def)
    with n show ?thesis by (simp add: zero)
  qed
  ultimately show "(0 < t \<longrightarrow> net_returns 0 pos rets ! t = rets ! t) \<and>
     (t = 0 \<longrightarrow> net_returns 0 pos rets ! t = NaN)" by blast
qed

theorem always_long_zero_cost_witness:
  "length [Fin 1, Fin 1, Fin 1] = length [Fin (1 / 2), NaN, Fin (- (1 / 4))] \<and>
   list_all (\<lambda>p. p = Fin 1) [Fin 1, Fin 1, Fin 1] \<and>
   net_returns 0 [Fin 1, Fin 1, Fin 1] [Fin (1 / 2), NaN, Fin (- (1 / 4))] =
     [NaN, NaN, Fin (- (1 / 4))]"
  using always_long_zero_cost [of "[Fin 1, Fin 1, Fin 1]" "[Fin (1 / 2), NaN, Fin (- (1 / 4))]"]
  by (simp add: net_returns_def gross_returns_def costs_def trades_def diff_def shift_def
      fsub_def)


subsection \<open>The bundle of a run\<close>

lemma length_cumprod_from [simp]: "length (cumprod_from a xs) = length xs"
  by (induction xs arbitrary: a) auto

lemma length_cumprod [simp]: "length (cumprod xs) = length xs"
  by (simp add: cumprod_def)

lemma length_cummax_from [simp]: "length (cummax_from m xs) = length xs"
  by (induction xs arbitrary: m) auto

lemma reindex_length: "reindex s target = Inr aligned \<Longrightarrow> length aligned = length target"
  by (auto simp: reindex_def index_def split: if_splits dest: arg_cong [where f = length])

lemma reindex_index: "reindex s target = Inr aligned \<Longrightarrow> index aligned = target"
  by (auto simp: reindex_def index_def comp_def split: if_splits)

lemma run_results_fields:
  assumes "run_results self strategy price_series returns_series = Inr res"
  shows "\<exists>pos. length pos = length returns_series \<and>
           vals (positions res) = pos \<and>
           vals (strategy_returns res) =
             net_returns (transaction_cost self) pos (vals returns_series)"
    and "length (strategy_returns res) = length returns_series"
    and "vals (cumulative_returns res) =
           cumprod (map (fadd (Fin 1)) (vals (strategy_returns res)))"
    and "vals (buy_hold_cumulative res) = cumprod (map (fadd (Fin 1)) (vals returns_series))"
    and "metrics res = None"
proof -
  from assms obtain sigs aligned where
    al: "reindex (get_positions sigs) (index returns_series) = Inr aligned" and
    res: "res = \<lparr>strategy_name = name strategy, signals = sigs,
       positions = zip (index returns_series) (fillna (Fin 0) (vals aligned)),
       strategy_returns = zip (index returns_series)
         (net_returns (transaction_cost self) (fillna (Fin 0) (vals aligned)) (vals returns_series)),
       cumulative_returns = zip (index returns_series)
         (cumprod (map (fadd (Fin 1))
           (net_returns (transaction_cost self) (fillna (Fin 0) (vals aligned))
              (vals returns_series)))),
       buy_hold_cumulative = zip (index returns_series)
         (cumprod (map (fadd (Fin 1)) (vals returns_series))),
       price_data = price_series, market_returns = returns_series, metrics = None\<rparr>"
    by (auto simp: run_results_def Let_def split: sum.splits)
  from al have len: "length aligned = length returns_series"
    using reindex_length by fastforce
  let ?pos = "fillna (Fin 0) (vals aligned)"
  have lp: "length ?pos = length returns_series" by (simp add: len)
  have v: "vals (strategy_returns res) =
             net_returns (transaction_cost self) ?pos (vals returns_series)"
    by (simp add: res len)
  have "vals (positions res) = ?pos" by (simp add: res len)
  with lp v show "\<exists>pos. length pos = length returns_series \<and>
           vals (positions res) = pos \<and>
           vals (strategy_returns res) =
             net_returns (transaction_cost self) pos (vals returns_series)"
    by blast
  show "length (strategy_returns res) = length returns_series"
    by (simp add: res len)
  show "vals (cumulative_returns res) =
           cumprod (map (fadd (Fin 1)) (vals (strategy_returns res)))"
    by (simp add: res len)
  show "vals (buy_hold_cumulative res) = cumprod (map (fadd (Fin 1)) (vals returns_series))"
    by (simp add: res)
  show "metrics res = None" by (simp add: res)
qed

subsection \<open>The initial capital\<close>

text \<open>
  C10. Two backtesters constructed with the same transaction cost and any two initial
  capitals give, for the same strategy, prices and returns, the same result of \<open>run\<close>:
  the same error, or the same bundle of signal, position, net-return, equity and
  benchmark series with the same metrics table.
\<close>

theorem initial_capital_has_no_influence:
  "run (Backtester_init capital1 cost) strategy price_series returns_series =
   run (Backtester_init capital2 cost) strategy price_series returns_series"
proof -
  have "transaction_cost (Backtester_init capital1 cost) =
        transaction_cost (Backtester_init capital2 cost)"
    by (simp add: Backtester_init_def)
  then have "run_results (Backtester_init capital1 cost) strategy price_series returns_series =
             run_results (Backtester_init capital2 cost) strategy price_series returns_series"
    unfolding run_results_def by (simp only:)
  then show ?thesis
    unfolding run_def by (simp only:)
qed


subsection \<open>Metrics of a run without observations\<close>

lemma dropna_empty_iff: "dropna xs = [] \<longleftrightarrow> (\<forall>x \<in> set xs. x = NaN)"
  by (auto simp: dropna_def filter_empty_conv)

lemma cumprod_from_all_nan: "\<forall>x \<in> set xs. x = NaN \<Longrightarrow> cumprod_from a xs = xs"
  by (induction xs arbitrary: a) auto

lemma cummax_from_all_nan: "\<forall>x \<in> set xs. x = NaN \<Longrightarrow> cummax_from m xs = xs"
  by (induction xs arbitrary: m) auto

lemma drawdown_all_nan:
  assumes "\<forall>x \<in> set xs. x = NaN"
  shows "dropna (drawdown xs) = []"
proof -
  have "x = NaN" if "x \<in> set (map2 fdiv (map2 fsub xs xs) xs)" for x
  proof -
    from that obtain a b c where "x = fdiv (fsub a b) c" "a \<in> set xs"
      by (auto dest!: set_zip_leftD)
    with assms show ?thesis by (auto simp: fsub_def)
  qed
  then show ?thesis
    using assms by (simp add: drawdown_def cummax_def cummax_from_all_nan dropna_empty_iff)
qed

lemma all_nan_last: "xs \<noteq> [] \<Longrightarrow> \<forall>x \<in> set xs. x = NaN \<Longrightarrow> last xs = NaN"
  using last_in_set by blast

lemma calculate_metrics_all_nan:
  assumes nan: "dropna (vals (strategy_returns res)) = []"
    and cum: "vals (cumulative_returns res) = cumprod (map (fadd (Fin 1)) (vals (strategy_returns res)))"
    and ne: "vals (strategy_returns res) \<noteq> []"
    and bh: "vals (buy_hold_cumulative res) \<noteq> []"
  shows "calculate_metrics res =
     Inr \<lparr>Total_Return = NaN, CAGR = Fin 0, Volatility = NaN, Sharpe_Ratio = Fin 0,
          Max_Drawdown = NaN, Calmar_Ratio = NaN, Win_Rate = Fin 0, Total_Trades = 0,
          Avg_Win = Fin 0, Avg_Loss = Fin 0, Win_Loss_Ratio = Fin 0,
          Buy_Hold_Return = fsub (last (vals (buy_hold_cumulative res))) (Fin 1),
          Outperformance = NaN\<rparr>"
proof -
  let ?net = "vals (strategy_returns res)"
  from nan have all: "\<forall>x \<in> set ?net. x = NaN" by (simp add: dropna_empty_iff)
  then have m: "map (fadd (Fin 1)) ?net = ?net" by (auto intro!: map_idI)
  have c: "vals (cumulative_returns res) = ?net"
    using all by (simp add: cum m cumprod_def cumprod_from_all_nan)
  have l: "last ?net = NaN" using ne all by (rule all_nan_last)
  have d: "series_min (drawdown ?net) = NaN"
    using all by (simp add: series_min_def drawdown_all_nan)
  have s: "series_std [] = NaN" by (simp add: series_std_def dropna_def std_r_def)
  show ?thesis
    by (simp add: calculate_metrics_def Let_def iloc_last_def nan c ne bh l d s fsub_def
        fgt_def fne_def)
qed


lemma calculate_metrics_no_rows:
  "vals (cumulative_returns res) = [] \<Longrightarrow> calculate_metrics res = Inl IndexError"
  by (simp add: calculate_metrics_def Let_def iloc_last_def)

text \<open>
  C9, as the code has it. When the net returns of a run have no observation left after
  NaN is dropped: if the returns series has no row at all, the metrics computation fails
  (reading the last equity value raises IndexError) and so does the run; if it has rows,
  the computation succeeds and the table it returns has CAGR, Sharpe ratio, win rate,
  total trades, average win, average loss and win/loss ratio equal to 0, and total return,
  volatility, maximum drawdown, Calmar ratio and outperformance equal to NaN.
\<close>

theorem metrics_on_no_observations:
  assumes rr: "run_results self strategy price_series returns_series = Inr res"
    and nan: "dropna (vals (strategy_returns res)) = []"
  shows "(returns_series = [] \<longrightarrow>
            calculate_metrics res = Inl IndexError \<and>
            run self strategy price_series returns_series = Inl IndexError) \<and>
         (returns_series \<noteq> [] \<longrightarrow>
            (\<exists>m. calculate_metrics res = Inr m \<and>
                 run self strategy price_series returns_series = Inr (res\<lparr>metrics := Some m\<rparr>) \<and>
                 Total_Return m = NaN \<and> CAGR m = Fin 0 \<and> Volatility m = NaN \<and>
                 Sharpe_Ratio m = Fin 0 \<and> Max_Drawdown m = NaN \<and> Calmar_Ratio m = NaN \<and>
                 Win_Rate m = Fin 0 \<and> Total_Trades m = 0 \<and> Avg_Win m = Fin 0 \<and>
                 Avg_Loss m = Fin 0 \<and> Win_Loss_Ratio m = Fin 0 \<and> Outperformance m = NaN))"
proof (intro conjI impI)
  note f = run_results_fields [OF rr]
  assume e: "returns_series = []"
  with f(2,3) have "vals (cumulative_returns res) = []" by (simp add: cumprod_def vals_def)
  then show c: "calculate_metrics res = Inl IndexError" by (rule calculate_metrics_no_rows)
  show "run self strategy price_series returns_series = Inl IndexError"
    by (simp add: run_def rr c)
next
  note f = run_results_fields [OF rr]
  assume ne: "returns_series \<noteq> []"
  with f(2) have n: "vals (strategy_returns res) \<noteq> []" by (auto simp: vals_def)
  from ne f(4) have b: "vals (buy_hold_cumulative res) \<noteq> []"
    by (metis length_cumprod length_map length_vals length_0_conv)
  note c = calculate_metrics_all_nan [OF nan f(3) n b]
  show "\<exists>m. calculate_metrics res = Inr m \<and>
            run self strategy price_series returns_series = Inr (res\<lparr>metrics := Some m\<rparr>) \<and>
            Total_Return m = NaN \<and> CAGR m = Fin 0 \<and> Volatility m = NaN \<and>
            Sharpe_Ratio m = Fin 0 \<and> Max_Drawdown m = NaN \<and> Calmar_Ratio m = NaN \<and>
            Win_Rate m = Fin 0 \<and> Total_Trades m = 0 \<and> Avg_Win m = Fin 0 \<and>
            Avg_Loss m = Fin 0 \<and> Win_Loss_Ratio m = Fin 0 \<and> Outperformance m = NaN"
    by (simp add: run_def rr c)
qed

text \<open>
  C9, at a concrete input: a run on two prices and the one return between them. Its only
  net return is NaN, no observation is left after NaN is dropped, and the run returns a
  metrics table with zeros.
\<close>

theorem metrics_single_row_counterexample:
  "run (Backtester_init 100000 (1 / 1000)) (MomentumStrategy ''Momentum (1d)'' 1)
       [(0::nat, Fin 100), (1, Fin 110)] [(1, Fin (1 / 10))] =
   Inr \<lparr>strategy_name = ''Momentum (1d)'',
        signals = [(0, 0), (1, 1)],
        positions = [(1, Fin 0)],
        strategy_returns = [(1, NaN)],
        cumulative_returns = [(1, NaN)],
        buy_hold_cumulative = [(1, Fin (11 / 10))],
        price_data = [(0, Fin 100), (1, Fin 110)],
        market_returns = [(1, Fin (1 / 10))],
        metrics = Some \<lparr>Total_Return = NaN, CAGR = Fin 0, Volatility = NaN,
          Sharpe_Ratio = Fin 0, Max_Drawdown = NaN, Calmar_Ratio = NaN, Win_Rate = Fin 0,
          Total_Trades = 0, Avg_Win = Fin 0, Avg_Loss = Fin 0, Win_Loss_Ratio = Fin 0,
          Buy_Hold_Return = Fin (1 / 10), Outperformance = NaN\<rparr>\<rparr> \<and>
   dropna [NaN] = []"
  by (simp add: run_def run_results_def Backtester_init_def momentum_generate_signals_def
      pct_change_def ffill_def shift_def fsub_def momentum_signal_def fgt_def fle_def fne_def
      get_positions_def reindex_def fillna_def net_returns_def gross_returns_def costs_def
      trades_def diff_def cumprod_def calculate_metrics_def iloc_last_def dropna_def
      series_std_def std_r_def series_min_def drawdown_def cummax_def vals_def index_def
      Let_def)


theorem metrics_on_no_observations_witness:
  "run_results (Backtester_init 100000 (1 / 1000)) (MovingAverageCrossover ''MA'' 2 3)
       [(0::nat, Fin 10)] [] =
     Inr \<lparr>strategy_name = ''MA'', signals = [(0, 0)], positions = [],
          strategy_returns = [], cumulative_returns = [], buy_hold_cumulative = [],
          price_data = [(0, Fin 10)], market_returns = [], metrics = None\<rparr> \<and>
   dropna (vals ([]::(nat \<times> fval) list)) = [] \<and>
   run (Backtester_init 100000 (1 / 1000)) (MovingAverageCrossover ''MA'' 2 3)
       [(0::nat, Fin 10)] [] = Inl IndexError \<and>
   run_results (Backtester_init 100000 (1 / 1000)) (MomentumStrategy ''Mom'' 1)
       [(0::nat, Fin 50), (1, Fin 40)] [(1, Fin (- (1 / 5)))] =
     Inr \<lparr>strategy_name = ''Mom'', signals = [(0, 0), (1, - 1)], positions = [(1, Fin 0)],
          strategy_returns = [(1, NaN)], cumulative_returns = [(1, NaN)],
          buy_hold_cumulative = [(1, Fin (4 / 5))],
          price_data = [(0, Fin 50), (1, Fin 40)],
          market_returns = [(1, Fin (- (1 / 5)))], metrics = None\<rparr> \<and>
   dropna (vals [(1::nat, NaN)]) = [] \<and>
   (\<exists>m. run (Backtester_init 100000 (1 / 1000)) (MomentumStrategy ''Mom'' 1)
       [(0::nat, Fin 50), (1, Fin 40)] [(1, Fin (- (1 / 5)))] =
      Inr \<lparr>strategy_name = ''Mom'', signals = [(0, 0), (1, - 1)], positions = [(1, Fin 0)],
          strategy_returns = [(1, NaN)], cumulative_returns = [(1, NaN)],
          buy_hold_cumulative = [(1, Fin (4 / 5))],
          price_data = [(0, Fin 50), (1, Fin 40)],
          market_returns = [(1, Fin (- (1 / 5)))], metrics = Some m\<rparr> \<and>
      CAGR m = Fin 0 \<and> Sharpe_Ratio m = Fin 0 \<and> Win_Rate m = Fin 0 \<and> Total_Trades m = 0)"
proof -
  let ?b = "Backtester_init 100000 (1 / 1000)"
  let ?R0 = "\<lparr>strategy_name = ''MA'', signals = [(0::nat, 0)], positions = [],
          strategy_returns = [], cumulative_returns = [], buy_hold_cumulative = [],
          price_data = [(0, Fin 10)], market_returns = [], metrics = None\<rparr>"
  let ?R1 = "\<lparr>strategy_name = ''Mom'', signals = [(0::nat, 0), (1, - 1)],
          positions = [(1, Fin 0)],
          strategy_returns = [(1, NaN)], cumulative_returns = [(1, NaN)],
          buy_hold_cumulative = [(1, Fin (4 / 5))],
          price_data = [(0, Fin 50), (1, Fin 40)],
          market_returns = [(1, Fin (- (1 / 5)))], metrics = None\<rparr>"
  have a1: "run_results ?b (MovingAverageCrossover ''MA'' 2 3) [(0::nat, Fin 10)] [] = Inr ?R0"
    by (simp add: run_results_def crossover_generate_signals_def rolling_mean_def
        rolling_apply_def window_at_def crossover_signal_def fgt_def fle_def get_positions_def
        shift_def reindex_def fillna_def net_returns_def gross_returns_def costs_def
        trades_def diff_def cumprod_def vals_def index_def Let_def)
  have a2: "dropna (vals (strategy_returns ?R0)) = []"
    by (simp add: dropna_def vals_def)
  have b1: "run_results ?b (MomentumStrategy ''Mom'' 1)
       [(0::nat, Fin 50), (1, Fin 40)] [(1, Fin (- (1 / 5)))] = Inr ?R1"
    by (simp add: run_results_def momentum_generate_signals_def
        pct_change_def ffill_def shift_def fsub_def momentum_signal_def fgt_def fle_def
        get_positions_def reindex_def fillna_def net_returns_def gross_returns_def costs_def
        trades_def diff_def cumprod_def vals_def index_def Let_def)
  have b2: "dropna (vals (strategy_returns ?R1)) = []"
    by (simp add: dropna_def vals_def)
  from metrics_on_no_observations [OF a1 a2]
  have c0: "run ?b (MovingAverageCrossover ''MA'' 2 3) [(0::nat, Fin 10)] [] = Inl IndexError"
    by simp
  from metrics_on_no_observations [OF b1 b2]
  obtain m where "run ?b (MomentumStrategy ''Mom'' 1)
       [(0::nat, Fin 50), (1, Fin 40)] [(1, Fin (- (1 / 5)))] = Inr (?R1\<lparr>metrics := Some m\<rparr>)"
    "CAGR m = Fin 0" "Sharpe_Ratio m = Fin 0" "Win_Rate m = Fin 0" "Total_Trades m = 0"
    by auto
  then have c1: "\<exists>m. run ?b (MomentumStrategy ''Mom'' 1)
       [(0::nat, Fin 50), (1, Fin 40)] [(1, Fin (- (1 / 5)))] =
      Inr \<lparr>strategy_name = ''Mom'', signals = [(0, 0), (1, - 1)], positions = [(1, Fin 0)],
          strategy_returns = [(1, NaN)], cumulative_returns = [(1, NaN)],
          buy_hold_cumulative = [(1, Fin (4 / 5))],
          price_data = [(0, Fin 50), (1, Fin 40)],
          market_returns = [(1, Fin (- (1 / 5)))], metrics = Some m\<rparr> \<and>
      CAGR m = Fin 0 \<and> Sharpe_Ratio m = Fin 0 \<and> Win_Rate m = Fin 0 \<and> Total_Trades m = 0"
    by auto
  from a2 b2 have a2': "dropna (vals ([]::(nat \<times> fval) list)) = []"
    and b2': "dropna (vals [(1::nat, NaN)]) = []" by simp_all
  from a1 a2' c0 b1 b2' c1 show ?thesis by blast
qed


subsection \<open>Maximum drawdown\<close>

lemma drawdown_step:
  assumes "0 < c" and "m = NInf \<or> (\<exists>M. m = Fin M \<and> 0 < M)"
  shows "\<exists>M'. (if flt m (Fin c) then Fin c else m) = Fin M' \<and> 0 < M' \<and>
           drawdown_range (fdiv (fsub (Fin c) (Fin M')) (Fin M')) \<and>
           fdiv (fsub (Fin c) (Fin M')) (Fin M') \<noteq> NaN"
proof -
  from assms(2) show ?thesis
  proof
    assume "m = NInf"
    with assms(1) show ?thesis by (simp add: fsub_def)
  next
    assume "\<exists>M. m = Fin M \<and> 0 < M"
    then obtain M where M: "m = Fin M" "0 < M" by blast
    show ?thesis
    proof (cases "M < c")
      case True
      with M assms(1) show ?thesis by (simp add: fsub_def)
    next
      case False
      then have "c \<le> M" by simp
      with M assms(1) have "- 1 < (c - M) / M" "(c - M) / M \<le> 0"
        by (simp_all add: field_simps)
      with M False show ?thesis by (simp add: fsub_def)
    qed
  qed
qed

lemma drawdown_from_range:
  assumes "list_all (above 0) cs" and "m = NInf \<or> (\<exists>M. m = Fin M \<and> 0 < M)"
  shows "list_all2 (\<lambda>c d. (c = NaN \<and> d = NaN) \<or> (c \<noteq> NaN \<and> d \<noteq> NaN \<and> drawdown_range d))
           cs (map2 fdiv (map2 fsub cs (cummax_from m cs)) (cummax_from m cs))"
  using assms
proof (induction cs arbitrary: m)
  case Nil
  then show ?case by simp
next
  case (Cons c cs)
  show ?case
  proof (cases c)
    case (Fin p)
    with Cons.prems have p: "0 < p" by simp
    from drawdown_step [OF p Cons.prems(2)] obtain M' where
      M': "(if flt m (Fin p) then Fin p else m) = Fin M'" "0 < M'"
      "drawdown_range (fdiv (fsub (Fin p) (Fin M')) (Fin M'))"
      "fdiv (fsub (Fin p) (Fin M')) (Fin M') \<noteq> NaN"
      by blast
    from Cons.prems have "list_all (above 0) cs" by simp
    from Cons.IH [OF this, of "Fin M'"] M'(2)
    have "list_all2 (\<lambda>c d. (c = NaN \<and> d = NaN) \<or> (c \<noteq> NaN \<and> d \<noteq> NaN \<and> drawdown_range d))
           cs (map2 fdiv (map2 fsub cs (cummax_from (Fin M') cs)) (cummax_from (Fin M') cs))"
      by blast
    with M' Fin show ?thesis by simp
  next
    case NaN
    with Cons show ?thesis by (simp add: fsub_def)
  qed (use Cons.prems in simp_all)
qed

lemma cumprod_from_above:
  assumes "list_all (above 0) fs" and "0 < a"
  shows "list_all2 (\<lambda>f c. (f = NaN \<and> c = NaN) \<or> (f \<noteq> NaN \<and> c \<noteq> NaN \<and> above 0 c))
           fs (cumprod_from (Fin a) fs)"
  using assms
proof (induction fs arbitrary: a)
  case Nil
  then show ?case by simp
next
  case (Cons f fs)
  show ?case
  proof (cases f)
    case (Fin p)
    with Cons.prems have "0 < a * p" by simp
    with Cons Fin show ?thesis by simp
  next
    case NaN
    with Cons show ?thesis by simp
  qed (use Cons.prems in simp_all)
qed

lemma fold_min_range:
  "P y \<Longrightarrow> list_all P ys \<Longrightarrow> P (foldl (\<lambda>m x. if flt x m then x else m) y ys)"
  by (induction ys arbitrary: y) auto

lemma series_min_range:
  assumes "list_all drawdown_range ds" and "dropna ds \<noteq> []"
  shows "\<exists>d. series_min ds = Fin d \<and> - 1 < d \<and> d \<le> 0"
proof -
  let ?P = "\<lambda>x. drawdown_range x \<and> x \<noteq> NaN"
  from assms(2) obtain y ys where y: "dropna ds = y # ys" by (cases "dropna ds") auto
  have "list_all ?P (dropna ds)"
    using assms(1) by (auto simp: dropna_def list_all_iff)
  with y have "?P y" "list_all ?P ys" by simp_all
  then have "?P (foldl (\<lambda>m x. if flt x m then x else m) y ys)"
    by (rule fold_min_range)
  then have "?P (series_min ds)" by (simp add: series_min_def y)
  then show ?thesis by (cases "series_min ds") simp_all
qed


lemma nan_related:
  assumes "list_all2 (\<lambda>c d. (c = NaN \<and> d = NaN) \<or> (c \<noteq> NaN \<and> d \<noteq> NaN \<and> Q d)) cs ds"
    and "Q NaN"
  shows "list_all Q ds" and "dropna cs \<noteq> [] \<Longrightarrow> dropna ds \<noteq> []"
  using assms by (induction cs ds rule: list_all2_induct) (auto simp: dropna_def)

lemma add_one_above:
  "list_all (above (- 1)) net \<Longrightarrow>
   list_all2 (\<lambda>c d. (c = NaN \<and> d = NaN) \<or> (c \<noteq> NaN \<and> d \<noteq> NaN \<and> above 0 d))
     net (map (fadd (Fin 1)) net)"
proof (induction net)
  case Nil
  then show ?case by simp
next
  case (Cons x net)
  then show ?case by (cases x) simp_all
qed

lemma max_drawdown_range:
  assumes ok: "list_all (above (- 1)) net" and ne: "dropna net \<noteq> []"
  shows "\<exists>d. series_min (drawdown (cumprod (map (fadd (Fin 1)) net))) = Fin d \<and> - 1 < d \<and> d \<le> 0"
proof -
  let ?fs = "map (fadd (Fin 1)) net"
  let ?cum = "cumprod ?fs"
  note a = nan_related [OF add_one_above [OF ok]]
  have fs: "list_all (above 0) ?fs" "dropna ?fs \<noteq> []"
    using a ne by simp_all
  have "list_all2 (\<lambda>f c. (f = NaN \<and> c = NaN) \<or> (f \<noteq> NaN \<and> c \<noteq> NaN \<and> above 0 c)) ?fs ?cum"
    unfolding cumprod_def using fs(1) by (intro cumprod_from_above) simp_all
  note b = nan_related [OF this]
  have cum: "list_all (above 0) ?cum" "dropna ?cum \<noteq> []"
    using b fs(2) by simp_all
  have "list_all2 (\<lambda>c d. (c = NaN \<and> d = NaN) \<or> (c \<noteq> NaN \<and> d \<noteq> NaN \<and> drawdown_range d))
          ?cum (drawdown ?cum)"
    unfolding drawdown_def cummax_def Let_def using cum(1) by (intro drawdown_from_range) simp_all
  note c = nan_related [OF this]
  have "list_all drawdown_range (drawdown ?cum)" "dropna (drawdown ?cum) \<noteq> []"
    using c cum(2) by simp_all
  then show ?thesis by (rule series_min_range)
qed

lemma calculate_metrics_max_drawdown:
  assumes "vals (cumulative_returns res) \<noteq> []" and "vals (buy_hold_cumulative res) \<noteq> []"
  shows "\<exists>m. calculate_metrics res = Inr m \<and>
           Max_Drawdown m = series_min (drawdown (vals (cumulative_returns res)))"
  using assms by (simp add: calculate_metrics_def Let_def iloc_last_def)

text \<open>
  C8, as the code has it. For every backtest run whose net returns have at least one entry
  that is not NaN, and in which every entry that is not NaN is a finite number greater
  than -1 (the equity stays positive), the metrics are computed and the Max Drawdown, the
  minimum over \<open>t\<close> of \<open>(equity[t] - running_max(equity)[t]) / running_max(equity)[t]\<close>,
  is a number between -1 and 0.
\<close>

theorem max_drawdown_bounds:
  assumes rr: "run_results self strategy price_series returns_series = Inr res"
    and ok: "list_all (above (- 1)) (vals (strategy_returns res))"
    and ne: "dropna (vals (strategy_returns res)) \<noteq> []"
  shows "\<exists>m d. calculate_metrics res = Inr m \<and>
           run self strategy price_series returns_series = Inr (res\<lparr>metrics := Some m\<rparr>) \<and>
           Max_Drawdown m = Fin d \<and> - 1 \<le> d \<and> d \<le> 0"
proof -
  note f = run_results_fields [OF rr]
  let ?net = "vals (strategy_returns res)"
  from ne have n: "?net \<noteq> []" by (auto simp: dropna_def)
  with f(3) have c: "vals (cumulative_returns res) \<noteq> []"
    by (metis length_cumprod length_map length_0_conv)
  from n f(2) have "vals returns_series \<noteq> []"
    by (metis length_vals length_0_conv)
  with f(4) have b: "vals (buy_hold_cumulative res) \<noteq> []"
    by (metis length_cumprod length_map length_0_conv)
  from calculate_metrics_max_drawdown [OF c b] obtain m where
    m: "calculate_metrics res = Inr m"
    "Max_Drawdown m = series_min (drawdown (vals (cumulative_returns res)))"
    by blast
  from max_drawdown_range [OF ok ne] f(3) m(2) obtain d where
    d: "Max_Drawdown m = Fin d" "- 1 < d" "d \<le> 0"
    by auto
  have "run self strategy price_series returns_series = Inr (res\<lparr>metrics := Some m\<rparr>)"
    by (simp add: run_def rr m(1))
  with m(1) d show ?thesis by (intro exI [of _ m] exI [of _ d]) simp
qed


lemmas run_eval = run_results_def momentum_generate_signals_def
        pct_change_def ffill_def shift_def fsub_def momentum_signal_def fgt_def fle_def
        get_positions_def reindex_def fillna_def net_returns_def gross_returns_def costs_def
        trades_def diff_def cumprod_def vals_def index_def Let_def Backtester_init_def

text \<open>
  C8, at concrete inputs. A short position over a period in which the price goes from 1
  to 4 has the net return -3, the equity falls from 1.499 to -2.998 and the Max Drawdown
  is -3, below -1. A run with a single return has no net return but NaN, and its Max
  Drawdown is NaN, which is in no interval.
\<close>

theorem max_drawdown_counterexample:
  "map_sum id (\<lambda>res. map_option Max_Drawdown (metrics res))
     (run (Backtester_init 100000 (1 / 1000)) (MomentumStrategy ''Momentum (1d)'' 1)
        [(0::nat, Fin 4), (1, Fin 2), (2, Fin 1), (3, Fin 4)]
        [(1, Fin (- (1 / 2))), (2, Fin (- (1 / 2))), (3, Fin 3)]) = Inr (Some (Fin (- 3))) \<and>
   \<not> fle (Fin (- 1)) (Fin (- 3)) \<and>
   map_sum id (\<lambda>res. map_option Max_Drawdown (metrics res))
     (run (Backtester_init 100000 (1 / 1000)) (MomentumStrategy ''Momentum (1d)'' 1)
        [(0::nat, Fin 4), (1, Fin 2)] [(1, Fin (- (1 / 2)))]) = Inr (Some NaN) \<and>
   \<not> fle (Fin (- 1)) NaN"
proof -
  let ?b = "Backtester_init 100000 (1 / 1000)"
  let ?s = "MomentumStrategy ''Momentum (1d)'' 1"
  let ?p = "[(0::nat, Fin 4), (1, Fin 2), (2, Fin 1), (3, Fin 4)]"
  let ?r = "[(1::nat, Fin (- (1 / 2))), (2, Fin (- (1 / 2))), (3, Fin 3)]"
  let ?R = "\<lparr>strategy_name = ''Momentum (1d)'',
        signals = [(0::nat, 0), (1, - 1), (2, - 1), (3, 1)],
        positions = [(1, Fin 0), (2, Fin (- 1)), (3, Fin (- 1))],
        strategy_returns = [(1, NaN), (2, Fin (499 / 1000)), (3, Fin (- 3))],
        cumulative_returns = [(1, NaN), (2, Fin (1499 / 1000)), (3, Fin (- (2998 / 1000)))],
        buy_hold_cumulative = [(1, Fin (1 / 2)), (2, Fin (1 / 4)), (3, Fin 1)],
        price_data = ?p, market_returns = ?r, metrics = None\<rparr>"
  have rr: "run_results ?b ?s ?p ?r = Inr ?R"
    by (simp add: run_eval)
  have "vals (cumulative_returns ?R) \<noteq> []" "vals (buy_hold_cumulative ?R) \<noteq> []"
    by (simp_all add: vals_def)
  from calculate_metrics_max_drawdown [OF this] obtain m where
    m: "calculate_metrics ?R = Inr m"
    "Max_Drawdown m = series_min (drawdown (vals (cumulative_returns ?R)))"
    by blast
  have "series_min (drawdown (vals (cumulative_returns ?R))) = Fin (- 3)"
    by (simp add: series_min_def drawdown_def cummax_def dropna_def fsub_def vals_def)
  with m(2) have "Max_Drawdown m = Fin (- 3)" by simp
  moreover have "run ?b ?s ?p ?r = Inr (?R\<lparr>metrics := Some m\<rparr>)"
    by (simp only: run_def rr m(1) sum.case)
  ultimately have first: "map_sum id (\<lambda>res. map_option Max_Drawdown (metrics res))
      (run ?b ?s ?p ?r) = Inr (Some (Fin (- 3)))"
    by simp
  have "map_sum id (\<lambda>res. map_option Max_Drawdown (metrics res))
     (run ?b ?s [(0::nat, Fin 4), (1, Fin 2)] [(1, Fin (- (1 / 2)))]) = Inr (Some NaN)"
    by (simp add: run_def run_eval calculate_metrics_def iloc_last_def dropna_def
        series_std_def std_r_def series_min_def drawdown_def cummax_def fne_def)
  with first show ?thesis by (simp add: fle_def)
qed

theorem max_drawdown_bounds_witness:
  "run_results (Backtester_init 100000 (1 / 1000)) (MomentumStrategy ''Momentum (1d)'' 1)
       [(0::nat, Fin 4), (1, Fin 5), (2, Fin 4), (3, Fin 5)]
       [(1, Fin (1 / 4)), (2, Fin (- (1 / 5))), (3, Fin (1 / 4))] =
     Inr \<lparr>strategy_name = ''Momentum (1d)'',
        signals = [(0::nat, 0), (1, 1), (2, - 1), (3, 1)],
        positions = [(1, Fin 0), (2, Fin 1), (3, Fin (- 1))],
        strategy_returns = [(1, NaN), (2, Fin (- (201 / 1000))), (3, Fin (- (252 / 1000)))],
        cumulative_returns =
          [(1, NaN), (2, Fin (799 / 1000)), (3, Fin (799 / 1000 * (748 / 1000)))],
        buy_hold_cumulative = [(1, Fin (5 / 4)), (2, Fin 1), (3, Fin (5 / 4))],
        price_data = [(0, Fin 4), (1, Fin 5), (2, Fin 4), (3, Fin 5)],
        market_returns = [(1, Fin (1 / 4)), (2, Fin (- (1 / 5))), (3, Fin (1 / 4))],
        metrics = None\<rparr> \<and>
   list_all (above (- 1)) [NaN, Fin (- (201 / 1000)), Fin (- (252 / 1000))] \<and>
   dropna [NaN, Fin (- (201 / 1000)), Fin (- (252 / 1000))] \<noteq> [] \<and>
   (\<exists>m d. run (Backtester_init 100000 (1 / 1000)) (MomentumStrategy ''Momentum (1d)'' 1)
       [(0::nat, Fin 4), (1, Fin 5), (2, Fin 4), (3, Fin 5)]
       [(1, Fin (1 / 4)), (2, Fin (- (1 / 5))), (3, Fin (1 / 4))] =
     Inr \<lparr>strategy_name = ''Momentum (1d)'',
        signals = [(0::nat, 0), (1, 1), (2, - 1), (3, 1)],
        positions = [(1, Fin 0), (2, Fin 1), (3, Fin (- 1))],
        strategy_returns = [(1, NaN), (2, Fin (- (201 / 1000))), (3, Fin (- (252 / 1000)))],
        cumulative_returns =
          [(1, NaN), (2, Fin (799 / 1000)), (3, Fin (799 / 1000 * (748 / 1000)))],
        buy_hold_cumulative = [(1, Fin (5 / 4)), (2, Fin 1), (3, Fin (5 / 4))],
        price_data = [(0, Fin 4), (1, Fin 5), (2, Fin 4), (3, Fin 5)],
        market_returns = [(1, Fin (1 / 4)), (2, Fin (- (1 / 5))), (3, Fin (1 / 4))],
        metrics = Some m\<rparr> \<and>
     Max_Drawdown m = Fin d \<and> - 1 \<le> d \<and> d \<le> 0)"
proof -
  let ?b = "Backtester_init 100000 (1 / 1000)"
  let ?s = "MomentumStrategy ''Momentum (1d)'' 1"
  let ?p = "[(0::nat, Fin 4), (1, Fin 5), (2, Fin 4), (3, Fin 5)]"
  let ?r = "[(1::nat, Fin (1 / 4)), (2, Fin (- (1 / 5))), (3, Fin (1 / 4))]"
  let ?R = "\<lparr>strategy_name = ''Momentum (1d)'',
        signals = [(0::nat, 0), (1, 1), (2, - 1), (3, 1)],
        positions = [(1, Fin 0), (2, Fin 1), (3, Fin (- 1))],
        strategy_returns = [(1, NaN), (2, Fin (- (201 / 1000))), (3, Fin (- (252 / 1000)))],
        cumulative_returns =
          [(1, NaN), (2, Fin (799 / 1000)), (3, Fin (799 / 1000 * (748 / 1000)))],
        buy_hold_cumulative = [(1, Fin (5 / 4)), (2, Fin 1), (3, Fin (5 / 4))],
        price_data = ?p, market_returns = ?r, metrics = None\<rparr>"
  have rr: "run_results ?b ?s ?p ?r = Inr ?R"
    by (simp add: run_eval)
  have ok: "list_all (above (- 1)) (vals (strategy_returns ?R))"
    by (simp add: vals_def)
  have ne: "dropna (vals (strategy_returns ?R)) \<noteq> []"
    by (simp add: vals_def dropna_def)
  from max_drawdown_bounds [OF rr ok ne]
  have "\<exists>m d. run ?b ?s ?p ?r = Inr (?R\<lparr>metrics := Some m\<rparr>) \<and>
           Max_Drawdown m = Fin d \<and> - 1 \<le> d \<and> d \<le> 0"
    by blast
  moreover from ok have "list_all (above (- 1)) [NaN, Fin (- (201 / 1000)), Fin (- (252 / 1000))]"
    by (simp add: vals_def)
  moreover from ne have "dropna [NaN, Fin (- (201 / 1000)), Fin (- (252 / 1000))] \<noteq> []"
    by (simp add: vals_def)
  ultimately show ?thesis using rr by simp
qed

end
